theory Spec2Isabelle
  imports Main "HOL-Library.Sublist"
begin

section \<open>The processor sheet converter \<open>proc_parser.py\<close>\<close>

text \<open>
  The script reads two semicolon-separated sheets, one processor per line, and prints one
  \<open>Processor { ... }\<close> block per line whose \<open>Sockets Supported\<close> cell is not empty.

  A Python \<open>str\<close> is a sequence of code points. The model writes it as a \<open>string\<close>, one
  \<open>char\<close> per code point, so it covers text whose code points are below 256; the
  registered-trademark sign of the vendor strings is the code point \<open>0xAE\<close>.
  Python's integers are unbounded (\<open>int\<close>), its floats are IEEE doubles (\<open>double\<close>),
  its exceptions are values of \<open>error\<close>. The interpreter is CPython 3.11.
\<close>

subsection \<open>Characters and numbers\<close>

definition nl :: char where
  "nl = CHR 0x0A"

definition reg :: char where
  "reg = CHR 0xAE"

text \<open>The class \<open>[0-9]\<close> of the three patterns: the ten ASCII digits.\<close>

definition is_digit :: "char \<Rightarrow> bool" where
  "is_digit c \<longleftrightarrow> c \<in> set ''0123456789''"

definition digit_val :: "char \<Rightarrow> int" where
  "digit_val c = of_char c - 48"

text \<open>The number that a text of digits denotes.\<close>

definition int_of_digits :: "string \<Rightarrow> int" where
  "int_of_digits s = foldl (\<lambda>a c. 10 * a + digit_val c) 0 s"

definition digit_char :: "int \<Rightarrow> char" where
  "digit_char n = ''0123456789'' ! nat (n mod 10)"

text \<open>\<open>str(n)\<close> of a number that is not negative, and of any integer.\<close>

function show_dec :: "int \<Rightarrow> string" where
  "show_dec n = (if n < 10 then [digit_char n] else show_dec (n div 10) @ [digit_char n])"
  by pat_completeness auto
termination
  by (relation "measure nat") auto

declare show_dec.simps [simp del]

definition show_int :: "int \<Rightarrow> string" where
  "show_int i = (if i < 0 then CHR ''-'' # show_dec (- i) else show_dec i)"

subsection \<open>Exceptions\<close>

datatype error =
    IndexError
  | KeyError string
  | AssertionError
  | ValueError
  | FileNotFoundError

type_synonym 'a result = "error + 'a"

definition bnd :: "'a result \<Rightarrow> ('a \<Rightarrow> 'b result) \<Rightarrow> 'b result" where
  "bnd r f = (case r of Inl e \<Rightarrow> Inl e | Inr x \<Rightarrow> f x)"

text \<open>\<open>xs[0]\<close>, \<open>d[k]\<close> and \<open>max(xs)\<close> raise on an empty list or a missing key.\<close>

definition first :: "'a list \<Rightarrow> 'a result" where
  "first xs = (case xs of [] \<Rightarrow> Inl IndexError | x # _ \<Rightarrow> Inr x)"

definition getitem :: "(string \<rightharpoonup> string) \<Rightarrow> string \<Rightarrow> string result" where
  "getitem d k = (case d k of None \<Rightarrow> Inl (KeyError k) | Some v \<Rightarrow> Inr v)"

definition py_max :: "int list \<Rightarrow> int result" where
  "py_max xs = (case xs of [] \<Rightarrow> Inl ValueError | x # r \<Rightarrow> Inr (foldl max x r))"

subsection \<open>\<open>int(s)\<close>\<close>

text \<open>
  \<open>int\<close> refuses a text of more than 4300 digits with a \<open>ValueError\<close>
  (\<open>sys.int_info.default_max_str_digits\<close>; interpreters older than the releases of
  September 2022 have no such limit). \<open>int_of_run\<close> is \<open>int(m)\<close> for a text \<open>m\<close> of
  digits, as \<open>numberre\<close> finds them.
\<close>

definition max_str_digits :: nat where
  "max_str_digits = 4300"

definition int_of_run :: "string \<Rightarrow> int result" where
  "int_of_run m = (if max_str_digits < length m then Inl ValueError else Inr (int_of_digits m))"

text \<open>\<open>map(int, ms)\<close>, consumed to its end: the first text that \<open>int\<close> refuses ends it.\<close>

fun ints_of_runs :: "string list \<Rightarrow> int list result" where
  "ints_of_runs [] = Inr []"
| "ints_of_runs (m # ms) =
     bnd (int_of_run m) (\<lambda>i. bnd (ints_of_runs ms) (\<lambda>r. Inr (i # r)))"

text \<open>
  On a cell, \<open>int\<close> strips white space at both ends, takes an optional sign, and then
  wants decimal digits, where single underscores may stand between two digits. Anything
  else is a \<open>ValueError\<close>. The white space that \<open>int\<close> strips is, below 256, \<open>0x09\<close> to
  \<open>0x0D\<close>, \<open>0x20\<close>, \<open>0x85\<close> and \<open>0xA0\<close>.
\<close>

definition is_space :: "char \<Rightarrow> bool" where
  "is_space c \<longleftrightarrow> (let n = (of_char c :: nat) in
     (9 \<le> n \<and> n \<le> 13) \<or> n = 32 \<or> n = 133 \<or> n = 160)"

definition strip :: "string \<Rightarrow> string" where
  "strip s = rev (dropWhile is_space (rev (dropWhile is_space s)))"

fun digit_groups :: "string \<Rightarrow> bool" where
  "digit_groups [] = False"
| "digit_groups [c] = is_digit c"
| "digit_groups (c # d # r) =
     (is_digit c \<and> (if d = CHR ''_'' then digit_groups r else digit_groups (d # r)))"

definition py_int :: "string \<Rightarrow> int result" where
  "py_int s =
     (let t = strip s;
          neg = (case t of [] \<Rightarrow> False | c # _ \<Rightarrow> c = CHR ''-'');
          u = (case t of [] \<Rightarrow> [] | c # r \<Rightarrow> if c = CHR ''-'' \<or> c = CHR ''+'' then r else t)
      in if digit_groups u
         then bnd (int_of_run (filter (\<lambda>c. c \<noteq> CHR ''_'') u))
                (\<lambda>n. Inr (if neg then - n else n))
         else Inl ValueError)"

subsection \<open>The three patterns and \<open>findall\<close>\<close>

text \<open>
  \<open>[0-9]+\.[0-9]{2}\<close> at the front of a text: the longest run of digits (at least one), a
  point, two digits. The run cannot be given back to make the point match, since what
  follows a shorter run is a digit; so the match at a position is unique. The result is
  the matched text.
\<close>

definition decimal2_at :: "string \<Rightarrow> string option" where
  "decimal2_at s =
     (let ds = takeWhile is_digit s in
      if ds = [] then None
      else (case dropWhile is_digit s of
              p # a # b # _ \<Rightarrow>
                if p = CHR ''.'' \<and> is_digit a \<and> is_digit b then Some (ds @ [p, a, b]) else None
            | _ \<Rightarrow> None))"

text \<open>
  A pattern is modelled by its match at the front of a text: the text of its group and
  the length of the whole match.
  \<open>pricere\<close> is \<open>\$([0-9]+\.[0-9]{2})\<close>, \<open>ghzre\<close> is \<open>([0-9]+\.[0-9]{2}) GHz\<close> and
  \<open>numberre\<close> is \<open>([0-9]+)\<close>.
\<close>

definition pricere :: "string \<Rightarrow> (string \<times> nat) option" where
  "pricere s =
     (case s of
        [] \<Rightarrow> None
      | c # t \<Rightarrow>
          if c = CHR ''$''
          then (case decimal2_at t of None \<Rightarrow> None | Some g \<Rightarrow> Some (g, Suc (length g)))
          else None)"

definition ghzre :: "string \<Rightarrow> (string \<times> nat) option" where
  "ghzre s =
     (case decimal2_at s of
        None \<Rightarrow> None
      | Some g \<Rightarrow>
          if take 4 (drop (length g) s) = '' GHz'' then Some (g, length g + 4) else None)"

definition numberre :: "string \<Rightarrow> (string \<times> nat) option" where
  "numberre s =
     (let ds = takeWhile is_digit s in if ds = [] then None else Some (ds, length ds))"

text \<open>
  \<open>p.findall(s)\<close> for a pattern with one group: scan from the left; where the pattern
  matches, keep the group and go on behind the match; where it does not, go on one
  character further. None of the three patterns matches the empty text.
\<close>

fun findall :: "(string \<Rightarrow> (string \<times> nat) option) \<Rightarrow> string \<Rightarrow> string list" where
  "findall p [] = []"
| "findall p (c # t) =
     (case p (c # t) of
        None \<Rightarrow> findall p t
      | Some (g, n) \<Rightarrow> g # findall p (drop (n - 1) t))"

subsection \<open>Lines, cells and rows\<close>

text \<open>
  \<open>str.splitlines()\<close>: a line ends at \<open>\n\<close>, \<open>\r\<close>, \<open>\r\n\<close>, \<open>\v\<close>, \<open>\f\<close>, \<open>0x1C\<close>,
  \<open>0x1D\<close>, \<open>0x1E\<close> or \<open>0x85\<close>; the line ends are dropped, and a text that ends with a line end
  has no empty last line. The first argument is the line read so far, in reverse.
\<close>

definition is_linebreak :: "char \<Rightarrow> bool" where
  "is_linebreak c \<longleftrightarrow> (let n = (of_char c :: nat) in
     (10 \<le> n \<and> n \<le> 13) \<or> (28 \<le> n \<and> n \<le> 30) \<or> n = 133)"

fun splitlines_from :: "string \<Rightarrow> string \<Rightarrow> string list" where
  "splitlines_from cur [] = (if cur = [] then [] else [rev cur])"
| "splitlines_from cur (c # t) =
     (if is_linebreak c
      then rev cur #
        (case t of
           [] \<Rightarrow> splitlines_from [] t
         | d # t' \<Rightarrow>
             if c = CHR 0x0D \<and> d = CHR 0x0A then splitlines_from [] t'
             else splitlines_from [] t)
      else splitlines_from (c # cur) t)"

definition splitlines :: "string \<Rightarrow> string list" where
  "splitlines s = splitlines_from [] s"

text \<open>\<open>line.split(";")\<close>: the cells between the semicolons; never an empty list.\<close>

fun split_semi :: "string \<Rightarrow> string list" where
  "split_semi [] = [[]]"
| "split_semi (c # t) =
     (if c = CHR '';'' then [] # split_semi t
      else (case split_semi t of [] \<Rightarrow> [[c]] | w # ws \<Rightarrow> (c # w) # ws))"

text \<open>
  \<open>dict(zip(column_header, data))\<close>: \<open>zip\<close> stops at the shorter list, and a later pair
  with the same key replaces an earlier one.
\<close>

definition dict_zip :: "string list \<Rightarrow> string list \<Rightarrow> (string \<rightharpoonup> string)" where
  "dict_zip column_header cells = map_of (rev (zip column_header cells))"

subsection \<open>The output template\<close>

text \<open>
  The price is a float: an IEEE double, that is zero, or \<open>m * 2 ^ e\<close> with
  \<open>2 ^ 52 \<le> m < 2 ^ 53\<close> and \<open>e \<le> 971\<close>, or infinity. (A price is never negative, and
  never small enough to be subnormal.)
\<close>

datatype double = Finite int int | Infinity

text \<open>The number of binary digits of a number that is not negative.\<close>

function bit_length :: "int \<Rightarrow> nat" where
  "bit_length n = (if n \<le> 0 then 0 else Suc (bit_length (n div 2)))"
  by pat_completeness auto
termination
  by (relation "measure nat") auto

declare bit_length.simps [simp del]

text \<open>The integer nearest to \<open>a / b\<close> for \<open>b > 0\<close>; of two nearest ones the even one.\<close>

definition round_half_even :: "int \<Rightarrow> int \<Rightarrow> int" where
  "round_half_even a b =
     (let q = a div b; r = a mod b
      in if 2 * r < b then q else if b < 2 * r then q + 1 else if even q then q else q + 1)"

text \<open>
  The double nearest to \<open>a / b\<close> for \<open>a \<ge> 0\<close> and \<open>b > 0\<close>, ties to even: \<open>e\<close> is the
  exponent with \<open>2 ^ 52 \<le> a / (b * 2 ^ e) < 2 ^ 53\<close>, and \<open>m\<close> the rounded quotient. A value
  that rounds to \<open>2 ^ 1024\<close> or more is infinity.
\<close>

definition nearest_double :: "int \<Rightarrow> int \<Rightarrow> double" where
  "nearest_double a b =
     (if a = 0 then Finite 0 0
      else
        let la = bit_length a; lb = bit_length b;
            e = int la - int lb - (if b * 2 ^ la \<le> a * 2 ^ lb then 52 else 53);
            m = (if e < 0 then round_half_even (a * 2 ^ nat (- e)) b
                 else round_half_even a (b * 2 ^ nat e));
            m' = (if m = 2 ^ 53 then 2 ^ 52 else m);
            e' = (if m = 2 ^ 53 then e + 1 else e)
        in if 971 < e' then Infinity else Finite m' e')"

text \<open>
  \<open>float(s)\<close> for a text \<open>d...d.dd\<close>, as the group of \<open>pricere\<close> is: the double nearest
  to the decimal, which is the number of its digits over 100.
\<close>

definition py_float :: "string \<Rightarrow> double" where
  "py_float s = nearest_double (int_of_digits (filter is_digit s)) 100"

text \<open>
  \<open>{:.2f}\<close>: the decimal with two places nearest to the exact value of the double, ties to
  even; infinity prints as \<open>inf\<close>.
\<close>

definition format_2f :: "double \<Rightarrow> string" where
  "format_2f x =
     (case x of
        Infinity \<Rightarrow> ''inf''
      | Finite m e \<Rightarrow>
          let p = (if e < 0 then round_half_even (m * 100) (2 ^ nat (- e))
                   else m * 100 * 2 ^ nat e)
          in show_dec (p div 100) @ ''.'' @ [digit_char (p mod 100 div 10), digit_char (p mod 10)])"

text \<open>The ten arguments of \<open>formstring.format\<close>, in their order.\<close>

record args =
  arg_name :: string
  arg_price :: double
  arg_clock_rate :: string
  arg_cores :: int
  arg_threads :: int
  arg_fma :: int
  arg_typ :: string
  arg_scale :: int
  arg_max_mem_speed :: int
  arg_mem_chan :: int

definition formstring_format :: "args \<Rightarrow> string" where
  "formstring_format a =
     ''Processor {'' @ [nl] @
     ''    manufacturer: \"Intel\",'' @ [nl] @
     ''    name: \"'' @ arg_name a @ ''\",'' @ [nl] @
     ''    price: '' @ format_2f (arg_price a) @ '','' @ [nl] @
     ''    clock_rate: '' @ arg_clock_rate a @ '','' @ [nl] @
     ''    turbo_rate: None,'' @ [nl] @
     ''    avx512_rate: None,'' @ [nl] @
     ''    avx512_turbo_rate: None,'' @ [nl] @
     ''    cores: '' @ show_int (arg_cores a) @ '','' @ [nl] @
     ''    threads: '' @ show_int (arg_threads a) @ '','' @ [nl] @
     ''    avx512_fma_units: Some('' @ show_int (arg_fma a) @ ''),'' @ [nl] @
     ''    typ: ProcessorType::'' @ arg_typ a @ '','' @ [nl] @
     ''    scalability: '' @ show_int (arg_scale a) @ '','' @ [nl] @
     ''    mem_support: MemoryType::DDR4_'' @ show_int (arg_max_mem_speed a) @ '','' @ [nl] @
     ''    mem_channels: '' @ show_int (arg_mem_chan a) @ '','' @ [nl] @
     ''},''"

subsection \<open>The body of the loop\<close>

text \<open>
  The state is the global set \<open>observed\<close> together with what has been printed, one entry
  per call of \<open>print\<close>.
\<close>

record state =
  observed :: "string set"
  printed :: "string list"

definition suffix_price :: string where
  "suffix_price = ''$10000000.00''"

definition scalable :: string where
  "scalable = ''Intel'' @ [reg] @ '' Xeon'' @ [reg] @ '' Scalable Processors''"

definition scalable2 :: string where
  "scalable2 = ''2nd Generation Intel'' @ [reg] @ '' Xeon'' @ [reg] @ '' Scalable Processors''"

definition xeon_w :: string where
  "xeon_w = ''Intel'' @ [reg] @ '' Xeon'' @ [reg] @ '' W Processor''"

definition xeon_d :: string where
  "xeon_d = ''Intel'' @ [reg] @ '' Xeon'' @ [reg] @ '' D Processor''"

text \<open>Line 38: the price, the first match in the cell followed by \<open>$10000000.00\<close>.\<close>

definition get_price :: "(string \<rightharpoonup> string) \<Rightarrow> double result" where
  "get_price data =
     bnd (getitem data ''Recommended Customer Price'') (\<lambda>cell.
     bnd (first (findall pricere (cell @ suffix_price))) (\<lambda>m.
     Inr (py_float m)))"

text \<open>Lines 46 to 58: the family tag; \<open>assert pc != pc\<close> always fails.\<close>

definition get_typ :: "(string \<rightharpoonup> string) \<Rightarrow> string result" where
  "get_typ data =
     bnd (getitem data ''Product Collection'') (\<lambda>pc.
     bnd (if pc = scalable then Inr ''XeonScalable''
          else if pc = scalable2 then Inr ''XeonScalableV2''
          else if pc = xeon_w then Inr ''XeonW''
          else if pc = xeon_d then Inr ''XeonD''
          else Inl AssertionError) (\<lambda>typ.
     bnd (getitem data ''Sockets Supported'') (\<lambda>sockets.
     Inr (typ @ ''_'' @ sockets))))"

text \<open>Lines 60 and 61.\<close>

definition get_scale :: "(string \<rightharpoonup> string) \<Rightarrow> int result" where
  "get_scale data =
     bnd (getitem data ''Scalability'') (\<lambda>cell.
     bnd (first (findall numberre cell)) (\<lambda>m.
     bnd (int_of_run m) (\<lambda>scale.
     if scale \<in> set [1, 2, 4, 8] then Inr scale else Inl AssertionError)))"

text \<open>Lines 64, 67 and 68.\<close>

definition get_max_mem_speed :: "(string \<rightharpoonup> string) \<Rightarrow> int result" where
  "get_max_mem_speed data =
     bnd (getitem data ''Maximum Memory Speed'') (\<lambda>speed.
     bnd (getitem data ''Memory Types'') (\<lambda>types.
     bnd (ints_of_runs (findall numberre (speed @ types))) (\<lambda>speeds.
     bnd (py_max speeds) (\<lambda>max_mem_speed.
     Inr (if max_mem_speed = 2666 then 2667 else max_mem_speed)))))"

definition get_int :: "(string \<rightharpoonup> string) \<Rightarrow> string \<Rightarrow> int result" where
  "get_int data k = bnd (getitem data k) py_int"

text \<open>
  Lines 46 to 81, everything between the update of \<open>observed\<close> and \<open>print\<close>, in the
  order in which Python evaluates it: the statements first, then the arguments of
  \<open>format\<close> from left to right.
\<close>

definition get_args :: "(string \<rightharpoonup> string) \<Rightarrow> double \<Rightarrow> args result" where
  "get_args data price =
     bnd (get_typ data) (\<lambda>typ.
     bnd (get_scale data) (\<lambda>scale.
     bnd (get_max_mem_speed data) (\<lambda>max_mem_speed.
     bnd (get_int data ''Max # of Memory Channels'') (\<lambda>mem_chan.
     bnd (getitem data ''Name'') (\<lambda>name.
     bnd (getitem data ''Processor Base Frequency'') (\<lambda>freq.
     bnd (first (findall ghzre freq)) (\<lambda>clock.
     bnd (get_int data ''# of Cores'') (\<lambda>cores.
     bnd (get_int data ''# of Threads'') (\<lambda>threads.
     bnd (get_int data ''# of AVX-512 FMA Units'') (\<lambda>fma.
     Inr \<lparr>arg_name = name, arg_price = price, arg_clock_rate = clock, arg_cores = cores,
       arg_threads = threads, arg_fma = fma, arg_typ = typ, arg_scale = scale,
       arg_max_mem_speed = max_mem_speed, arg_mem_chan = mem_chan\<rparr>))))))))))"

text \<open>
  Lines 36 to 82 for one row. The result is the exception that ended the run, if any, and
  the state at that moment.
\<close>

definition body :: "(string \<rightharpoonup> string) \<Rightarrow> state \<Rightarrow> error option \<times> state" where
  "body data st =
     (case get_price data of
        Inl e \<Rightarrow> (Some e, st)
      | Inr price \<Rightarrow>
     (case getitem data ''Sockets Supported'' of
        Inl e \<Rightarrow> (Some e, st)
      | Inr sockets \<Rightarrow>
     if sockets = [] then (None, st)
     else
     (case getitem data ''Name'' of
        Inl e \<Rightarrow> (Some e, st)
      | Inr name \<Rightarrow>
     if name \<in> observed st then (Some AssertionError, st)
     else
       (let st1 = st\<lparr>observed := insert name (observed st)\<rparr> in
        case get_args data price of
          Inl e \<Rightarrow> (Some e, st1)
        | Inr a \<Rightarrow> (None, st1\<lparr>printed := printed st1 @ [formstring_format a]\<rparr>)))))"

subsection \<open>\<open>process\<close> and the two calls\<close>

fun rows_loop :: "string list \<Rightarrow> string list list \<Rightarrow> state \<Rightarrow> error option \<times> state" where
  "rows_loop column_header [] st = (None, st)"
| "rows_loop column_header (cells # rest) st =
     (case body (dict_zip column_header cells) st of
        (Some e, st') \<Rightarrow> (Some e, st')
      | (None, st') \<Rightarrow> rows_loop column_header rest st')"

text \<open>Lines 28 to 35 on the text that \<open>open(fn).read()\<close> returned.\<close>

definition process_text :: "string \<Rightarrow> state \<Rightarrow> error option \<times> state" where
  "process_text text st =
     (case map split_semi (splitlines text) of
        [] \<Rightarrow> (Some IndexError, st)
      | column_header # rows \<Rightarrow> rows_loop column_header rows st)"

text \<open>The files are a map from names to texts; a missing file ends the run.\<close>

definition process :: "(string \<rightharpoonup> string) \<Rightarrow> string \<Rightarrow> state \<Rightarrow> error option \<times> state" where
  "process fs fn st =
     (case fs fn of
        None \<Rightarrow> (Some FileNotFoundError, st)
      | Some text \<Rightarrow> process_text text st)"

definition init :: state where
  "init = \<lparr>observed = {}, printed = []\<rparr>"

text \<open>Lines 84 and 85.\<close>

definition main :: "(string \<rightharpoonup> string) \<Rightarrow> error option \<times> state" where
  "main fs =
     (case process fs ''xeon_w.csv'' init of
        (Some e, st) \<Rightarrow> (Some e, st)
      | (None, st) \<Rightarrow> process fs ''xeon_scalable_gen2.csv'' st)"

subsection \<open>Vocabulary of the properties\<close>

text \<open>
  The correction of the memory speed in the words of the specification: 2666 becomes
  2667, every other value stays. The code has it inline, in \<open>get_max_mem_speed\<close>.
\<close>

definition correction :: "int \<Rightarrow> int" where
  "correction v = (if v = 2666 then 2667 else v)"

text \<open>
  The rows of a sheet as the loop sees them, and the \<open>Name\<close> cells of the rows that pass
  the check of line 40, in their order.
\<close>

definition rows_of :: "string \<Rightarrow> (string \<rightharpoonup> string) list" where
  "rows_of text =
     (case map split_semi (splitlines text) of
        [] \<Rightarrow> []
      | column_header # rows \<Rightarrow> map (dict_zip column_header) rows)"

definition passes :: "(string \<rightharpoonup> string) \<Rightarrow> bool" where
  "passes data = (case data ''Sockets Supported'' of None \<Rightarrow> False | Some s \<Rightarrow> s \<noteq> [])"

definition names :: "(string \<rightharpoonup> string) list \<Rightarrow> string option list" where
  "names ds = map (\<lambda>data. data ''Name'') (filter passes ds)"

text \<open>The \<open>Name\<close> cells of all rows, and the names of the blocks made from arguments.\<close>

definition name_cells :: "(string \<rightharpoonup> string) list \<Rightarrow> string option list" where
  "name_cells ds = map (\<lambda>data. data ''Name'') ds"

definition block_names :: "args list \<Rightarrow> string option list" where
  "block_names as = map (\<lambda>a. Some (arg_name a)) as"

subsection \<open>Sheets used as examples\<close>

definition sheet_header :: string where
  "sheet_header = ''Name;Recommended Customer Price;Sockets Supported;Product Collection;Scalability;Maximum Memory Speed;Memory Types;Max # of Memory Channels;Processor Base Frequency;# of Cores;# of Threads;# of AVX-512 FMA Units''"

definition gold_6248_line :: string where
  "gold_6248_line = ''Gold 6248;$3,043.00;1S;'' @ scalable @ '';Scalability 1S;2933;DDR4-2933;6;2.50 GHz;20;40;1''"

definition gold_6248_block :: string where
  "gold_6248_block =
     ''Processor {'' @ [nl] @
     ''    manufacturer: \"Intel\",'' @ [nl] @
     ''    name: \"Gold 6248\",'' @ [nl] @
     ''    price: 10000000.00,'' @ [nl] @
     ''    clock_rate: 2.50,'' @ [nl] @
     ''    turbo_rate: None,'' @ [nl] @
     ''    avx512_rate: None,'' @ [nl] @
     ''    avx512_turbo_rate: None,'' @ [nl] @
     ''    cores: 20,'' @ [nl] @
     ''    threads: 40,'' @ [nl] @
     ''    avx512_fma_units: Some(1),'' @ [nl] @
     ''    typ: ProcessorType::XeonScalable_1S,'' @ [nl] @
     ''    scalability: 1,'' @ [nl] @
     ''    mem_support: MemoryType::DDR4_2933,'' @ [nl] @
     ''    mem_channels: 6,'' @ [nl] @
     ''},''"

definition gold_6248_files :: "string \<rightharpoonup> string" where
  "gold_6248_files = map_of [(''xeon_w.csv'', sheet_header @ [nl] @ gold_6248_line)]"

text \<open>
  A line that ends behind an empty \<open>Sockets Supported\<close> cell, and sheets made of it and
  of the line of \<open>Gold 6248\<close>.
\<close>

definition skipped_line :: string where
  "skipped_line = ''Gold 6248;$3,043.00;''"

definition skipped_sheet :: string where
  "skipped_sheet = sheet_header @ [nl] @ skipped_line"

definition gold_sheet :: string where
  "gold_sheet = sheet_header @ [nl] @ gold_6248_line"

definition same_name_sheet :: string where
  "same_name_sheet = sheet_header @ [nl] @ skipped_line @ [nl] @ gold_6248_line"

definition twice_sheet :: string where
  "twice_sheet = sheet_header @ [nl] @ gold_6248_line @ [nl] @ gold_6248_line"

definition two_files :: "string \<rightharpoonup> string" where
  "two_files = map_of
     [(''xeon_w.csv'', skipped_sheet), (''xeon_scalable_gen2.csv'', gold_sheet)]"

definition twice_files :: "string \<rightharpoonup> string" where
  "twice_files = map_of
     [(''xeon_w.csv'', twice_sheet), (''xeon_scalable_gen2.csv'', sheet_header)]"

definition both_files :: "string \<rightharpoonup> string" where
  "both_files = map_of
     [(''xeon_w.csv'', gold_sheet), (''xeon_scalable_gen2.csv'', gold_sheet)]"

text \<open>Rows given by their cells, under the columns of \<open>sheet_header\<close>.\<close>

definition columns :: "string list" where
  "columns = split_semi sheet_header"

definition cells_of :: "string \<Rightarrow> string \<Rightarrow> string \<Rightarrow> string \<Rightarrow> string \<Rightarrow> string list" where
  "cells_of name sockets family scalability speed =
     [name, ''$694.00'', sockets, family, scalability, speed, ''DDR4'', ''6'', ''2.20 GHz'',
      ''10'', ''20'', ''1'']"

definition silver_4114 :: "string \<rightharpoonup> string" where
  "silver_4114 = dict_zip columns (cells_of ''Silver 4114'' ''2S'' scalable ''2S'' ''2400'')"

definition gold_6138 :: "string \<rightharpoonup> string" where
  "gold_6138 = dict_zip columns (cells_of ''Gold 6138'' ''S4S'' scalable ''S4S'' ''2666'')"

definition three_sockets :: "string \<rightharpoonup> string" where
  "three_sockets = dict_zip columns (cells_of ''Gold 0003'' ''3S'' scalable ''3S'' ''2400'')"

definition one_or_three :: "string \<rightharpoonup> string" where
  "one_or_three = dict_zip columns (cells_of ''Gold 0013'' ''1S'' scalable ''1S or 3S'' ''2400'')"

definition xeon_e :: "string \<rightharpoonup> string" where
  "xeon_e = dict_zip columns
     (cells_of ''E-2288G'' ''1S'' (''Intel'' @ [reg] @ '' Xeon'' @ [reg] @ '' E Processor'') ''1S''
        ''2666'')"

text \<open>A line of two cells under three columns: the third key is missing.\<close>

definition short_row :: "string \<rightharpoonup> string" where
  "short_row =
     dict_zip [''Name'', ''Sockets Supported'', ''Recommended Customer Price'']
       (split_semi ''Gold 6248;'')"

text \<open>A line that holds a name only, and one that ends behind the price.\<close>

definition name_only :: "string list" where
  "name_only = split_semi ''Gold 6248''"

definition price_only :: "string list" where
  "price_only = split_semi ''Gold 6248;$3,043.00''"

text \<open>A row whose price cell holds two prices.\<close>

definition two_prices :: "string \<rightharpoonup> string" where
  "two_prices = map_of [(''Recommended Customer Price'', ''$5.00 then $1999.00'')]"

section \<open>Properties\<close>

subsection \<open>Exceptions, lookups and the maximum\<close>

lemma bnd_Inl [simp]: "bnd (Inl e) f = Inl e"
  by (simp add: bnd_def)

lemma bnd_Inr [simp]: "bnd (Inr x) f = f x"
  by (simp add: bnd_def)

lemma bnd_eq_Inr: "bnd r f = Inr y \<longleftrightarrow> (\<exists>x. r = Inr x \<and> f x = Inr y)"
  by (cases r) simp_all

lemma getitem_Some [simp]: "d k = Some v \<Longrightarrow> getitem d k = Inr v"
  by (simp add: getitem_def)

lemma getitem_None [simp]: "d k = None \<Longrightarrow> getitem d k = Inl (KeyError k)"
  by (simp add: getitem_def)

lemma getitem_eq_Inr: "getitem d k = Inr v \<longleftrightarrow> d k = Some v"
  by (simp add: getitem_def split: option.splits)

lemma foldl_max_Max: "foldl max (x::int) r = Max (set (x # r))"
proof (induction r arbitrary: x)
  case Nil
  show ?case by simp
next
  case (Cons y r)
  have "Max (set (x # y # r)) = Max (insert (max x y) (set r))"
    by (cases "set r = {}") (simp_all add: max.assoc)
  with Cons show ?case by simp
qed

lemma py_max_Max: "xs \<noteq> [] \<Longrightarrow> py_max xs = Inr (Max (set xs))"
  by (cases xs) (simp_all add: py_max_def foldl_max_Max del: set_simps)

lemma py_max_eq_Inr: "py_max xs = Inr m \<longleftrightarrow> xs \<noteq> [] \<and> m = Max (set xs)"
  by (cases xs) (auto simp: py_max_def foldl_max_Max simp del: set_simps)

lemma ints_of_runs_eq_Inr:
  "ints_of_runs ms = Inr r \<Longrightarrow> r = map int_of_digits ms"
  by (induction ms arbitrary: r)
    (auto simp: bnd_eq_Inr int_of_run_def split: if_splits)

subsection \<open>One row\<close>

lemma get_max_mem_speed_eq:
  assumes "data ''Maximum Memory Speed'' = Some speed" "data ''Memory Types'' = Some types"
    and "get_max_mem_speed data = Inr v"
  shows "findall numberre (speed @ types) \<noteq> [] \<and>
    v = correction (Max (set (map int_of_digits (findall numberre (speed @ types)))))"
proof -
  from assms obtain r where r: "ints_of_runs (findall numberre (speed @ types)) = Inr r"
    and n: "r \<noteq> []" and v: "v = correction (Max (set r))"
    by (auto simp: get_max_mem_speed_def correction_def bnd_eq_Inr py_max_eq_Inr)
  from r have "r = map int_of_digits (findall numberre (speed @ types))"
    by (rule ints_of_runs_eq_Inr)
  with n v show ?thesis by simp
qed

lemma get_args_Inr:
  assumes "get_args data price = Inr a"
  shows "get_typ data = Inr (arg_typ a)"
    and "get_scale data = Inr (arg_scale a)"
    and "get_max_mem_speed data = Inr (arg_max_mem_speed a)"
    and "get_int data ''Max # of Memory Channels'' = Inr (arg_mem_chan a)"
    and "getitem data ''Name'' = Inr (arg_name a)"
    and "\<exists>freq. getitem data ''Processor Base Frequency'' = Inr freq \<and>
           first (findall ghzre freq) = Inr (arg_clock_rate a)"
    and "get_int data ''# of Cores'' = Inr (arg_cores a)"
    and "get_int data ''# of Threads'' = Inr (arg_threads a)"
    and "get_int data ''# of AVX-512 FMA Units'' = Inr (arg_fma a)"
    and "arg_price a = price"
  using assms by (auto simp: get_args_def bnd_eq_Inr)

lemma body_emitted:
  assumes "body data st = (None, st')" "data ''Sockets Supported'' = Some s" "s \<noteq> []"
  shows "\<exists>price name a. get_price data = Inr price \<and> data ''Name'' = Some name \<and>
    name \<notin> observed st \<and> get_args data price = Inr a \<and>
    st' = st\<lparr>observed := insert name (observed st),
             printed := printed st @ [formstring_format a]\<rparr>"
  using assms
  by (auto simp: body_def Let_def getitem_eq_Inr split: sum.splits if_splits)

subsection \<open>The price pattern\<close>

text \<open>
  A match of \<open>pricere\<close> holds no dollar sign behind its first character, so it never
  reaches into a text that is appended behind a dollar sign: \<open>findall\<close> treats the two
  parts one after the other.
\<close>

lemma not_digit_dollar [simp]: "\<not> is_digit (CHR ''$'')"
  by (simp add: is_digit_def)

lemma decimal2_at_Some:
  assumes "decimal2_at t = Some g"
  shows "\<exists>r. t = g @ r" and "g \<noteq> []"
proof -
  from assms obtain p a b r where d: "dropWhile is_digit t = p # a # b # r"
    and g: "g = takeWhile is_digit t @ [p, a, b]"
    by (auto simp: decimal2_at_def Let_def split: list.splits if_splits)
  have "t = takeWhile is_digit t @ dropWhile is_digit t" by simp
  with d g have "t = g @ r" by simp
  then show "\<exists>r. t = g @ r" ..
  from g show "g \<noteq> []" by simp
qed

lemma decimal2_at_append:
  assumes "decimal2_at t = Some g"
  shows "decimal2_at (t @ x) = Some g"
proof -
  from assms obtain p a b r where d: "dropWhile is_digit t = p # a # b # r"
    and n: "takeWhile is_digit t \<noteq> []" and c: "p = CHR ''.''" "is_digit a" "is_digit b"
    and g: "g = takeWhile is_digit t @ [p, a, b]"
    by (auto simp: decimal2_at_def Let_def split: list.splits if_splits)
  from d have pin: "p \<in> set t" by (metis list.set_intros(1) set_dropWhileD)
  from d have pno: "\<not> is_digit p" by (metis hd_dropWhile list.sel(1) list.simps(3))
  have "takeWhile is_digit (t @ x) = takeWhile is_digit t"
    using pin pno by (rule takeWhile_append1)
  moreover have "dropWhile is_digit (t @ x) = dropWhile is_digit t @ x"
    using pin pno by (rule dropWhile_append1)
  ultimately show ?thesis using d n c g by (simp add: decimal2_at_def Let_def)
qed

lemma decimal2_at_dollar:
  assumes "decimal2_at t = None"
  shows "decimal2_at (t @ CHR ''$'' # x) = None"
proof -
  have tw: "takeWhile is_digit (t @ CHR ''$'' # x) = takeWhile is_digit t"
    by (induction t) simp_all
  have dw: "dropWhile is_digit (t @ CHR ''$'' # x) = dropWhile is_digit t @ CHR ''$'' # x"
    by (induction t) simp_all
  show ?thesis
  proof (cases "takeWhile is_digit t = []")
    case True
    with tw show ?thesis by (simp add: decimal2_at_def)
  next
    case False
    show ?thesis
    proof (cases "dropWhile is_digit t")
      case Nil
      have "dropWhile is_digit (t @ CHR ''$'' # x) = CHR ''$'' # x"
        unfolding dw Nil by simp
      then show ?thesis by (simp add: decimal2_at_def Let_def tw split: list.splits)
    next
      case (Cons p r)
      with assms False show ?thesis
        by (cases r; cases "tl r")
          (auto simp: decimal2_at_def Let_def tw dw split: if_splits list.splits)
    qed
  qed
qed

lemma pricere_append:
  "pricere (c # t @ CHR ''$'' # x) = pricere (c # t)"
proof (cases "decimal2_at t")
  case None
  then show ?thesis by (simp add: pricere_def decimal2_at_dollar)
next
  case (Some g)
  then show ?thesis by (simp add: pricere_def decimal2_at_append)
qed

lemma pricere_length:
  assumes "pricere (c # t) = Some (g, n)"
  shows "n - 1 \<le> length t"
proof -
  from assms have "decimal2_at t = Some g" and "n = Suc (length g)"
    by (auto simp: pricere_def split: if_splits option.splits)
  with decimal2_at_Some(1) [of t g] show ?thesis by auto
qed

lemma findall_pricere_Some:
  assumes "pricere (c # t) = Some (g, n)"
  shows "findall pricere (c # t @ CHR ''$'' # x) =
    g # findall pricere (drop (n - 1) t @ CHR ''$'' # x)"
  using assms pricere_length [OF assms] by (simp add: pricere_append)

lemma findall_pricere_append:
  "findall pricere (s @ CHR ''$'' # x) = findall pricere s @ findall pricere (CHR ''$'' # x)"
proof (induction s rule: length_induct)
  case (1 s)
  show ?case
  proof (cases s)
    case Nil
    then show ?thesis by simp
  next
    case (Cons c t)
    show ?thesis
    proof (cases "pricere (c # t)")
      case None
      with 1 Cons show ?thesis by (simp add: pricere_append)
    next
      case (Some m)
      obtain g n where m: "m = (g, n)" by (cases m)
      from Some m have pm: "pricere (c # t) = Some (g, n)" by simp
      have "length (drop (n - 1) t) < length s" using Cons by simp
      with 1 have "findall pricere (drop (n - 1) t @ CHR ''$'' # x) =
        findall pricere (drop (n - 1) t) @ findall pricere (CHR ''$'' # x)" by blast
      moreover have "findall pricere (c # t) = g # findall pricere (drop (n - 1) t)"
        using pm by simp
      ultimately show ?thesis
        using pm Cons by (simp add: findall_pricere_Some del: findall.simps)
    qed
  qed
qed

lemma findall_suffix_price: "findall pricere suffix_price = [''10000000.00'']"
  by code_simp

lemma findall_pricere_suffix:
  "findall pricere (cell @ suffix_price) = findall pricere cell @ [''10000000.00'']"
proof -
  have a: "findall pricere (cell @ CHR ''$'' # ''10000000.00'') =
      findall pricere cell @ findall pricere (CHR ''$'' # ''10000000.00'')"
    by (rule findall_pricere_append)
  have b: "findall pricere (CHR ''$'' # ''10000000.00'') = [''10000000.00'']"
    by code_simp
  show ?thesis unfolding suffix_price_def a b by (rule refl)
qed

lemma get_price_eq:
  assumes "data ''Recommended Customer Price'' = Some cell"
  shows "get_price data =
    Inr (py_float (case findall pricere cell of [] \<Rightarrow> ''10000000.00'' | m # _ \<Rightarrow> m))"
  using assms
  by (simp add: get_price_def findall_pricere_suffix first_def split: list.splits)

lemma pricere_1999: "pricere (''$1999.00'' @ r) = Some (''1999.00'', 8)"
proof -
  have "decimal2_at ''1999.00'' = Some ''1999.00''" by code_simp
  then have "decimal2_at (''1999.00'' @ r) = Some ''1999.00''" by (rule decimal2_at_append)
  then show ?thesis by (simp add: pricere_def)
qed

lemma findall_1999:
  assumes "findall pricere pre = []"
  shows "\<exists>ms. findall pricere (pre @ ''$1999.00'' @ post) = ''1999.00'' # ms"
proof -
  have "findall pricere (pre @ ''$1999.00'' @ post) =
      findall pricere pre @ findall pricere (''$1999.00'' @ post)"
    using findall_pricere_append [of pre "''1999.00'' @ post"] by simp
  moreover have "findall pricere (''$1999.00'' @ post) = ''1999.00'' # findall pricere post"
    using pricere_1999 [of post] by simp
  ultimately show ?thesis using assms by simp
qed

subsection \<open>Rows that end the run, rows that are skipped\<close>

lemma body_skip:
  assumes "data ''Recommended Customer Price'' = Some cell"
    and "data ''Sockets Supported'' = Some []"
  shows "body data st = (None, st)"
  using assms by (simp add: body_def get_price_eq)

lemma body_price_missing:
  assumes "data ''Recommended Customer Price'' = None"
  shows "body data st = (Some (KeyError ''Recommended Customer Price''), st)"
  using assms by (simp add: body_def get_price_def)

lemma body_sockets_missing:
  assumes "data ''Recommended Customer Price'' = Some cell"
    and "data ''Sockets Supported'' = None"
  shows "body data st = (Some (KeyError ''Sockets Supported''), st)"
  using assms by (simp add: body_def get_price_eq)

lemma body_args_error:
  assumes "data ''Sockets Supported'' = Some s" and "s \<noteq> []"
    and "\<And>price. \<exists>e. get_args data price = Inl e"
  shows "fst (body data st) \<noteq> None \<and> printed (snd (body data st)) = printed st"
proof (cases "get_price data")
  case (Inl e)
  then show ?thesis by (simp add: body_def)
next
  case (Inr price)
  from assms(3) obtain e where "get_args data price = Inl e" by blast
  with Inr assms(1,2) show ?thesis
    by (auto simp: body_def Let_def split: sum.splits)
qed

lemma get_typ_eq_Inr:
  assumes "get_typ data = Inr typ" and "data ''Product Collection'' = Some pc"
    and "data ''Sockets Supported'' = Some s"
  shows "\<exists>tag. (pc, tag) \<in> set [(scalable, ''XeonScalable''), (scalable2, ''XeonScalableV2''),
      (xeon_w, ''XeonW''), (xeon_d, ''XeonD'')] \<and> typ = tag @ ''_'' @ s"
  using assms by (auto simp: get_typ_def bnd_eq_Inr split: if_splits)

lemma get_typ_unknown:
  assumes "data ''Product Collection'' = Some pc"
    and "pc \<notin> {scalable, scalable2, xeon_w, xeon_d}"
  shows "get_typ data = Inl AssertionError"
  using assms by (simp add: get_typ_def)

lemma get_args_typ_error:
  "get_typ data = Inl e \<Longrightarrow> get_args data price = Inl e"
  by (simp add: get_args_def)

lemma get_args_scale_error:
  "get_scale data = Inl e \<Longrightarrow> \<exists>e'. get_args data price = Inl e'"
  by (cases "get_typ data") (simp_all add: get_args_def)

lemma get_scale_eq_Inr:
  assumes "get_scale data = Inr v" and "data ''Scalability'' = Some cell"
  shows "\<exists>m ms. findall numberre cell = m # ms \<and> v = int_of_digits m \<and> v \<in> {1, 2, 4, 8}"
  using assms
  by (auto simp: get_scale_def bnd_eq_Inr first_def int_of_run_def split: list.splits if_splits)

lemma get_scale_invalid:
  assumes "data ''Scalability'' = Some cell" and "findall numberre cell = m # ms"
    and "int_of_digits m \<notin> {1, 2, 4, 8}"
  shows "get_scale data =
    Inl (if max_str_digits < length m then ValueError else AssertionError)"
  using assms by (simp add: get_scale_def first_def int_of_run_def)

lemma rows_loop_skip:
  assumes "body (dict_zip column_header cells) st = (None, st)"
  shows "rows_loop column_header (cells # rest) st = rows_loop column_header rest st"
  using assms by simp

lemma rows_loop_abort:
  assumes "body (dict_zip column_header cells) st = (Some e, st')"
  shows "rows_loop column_header (cells # rest) st = (Some e, st')"
  using assms by simp

lemma dict_zip_None:
  "k \<notin> set (take (length cells) column_header) \<Longrightarrow> dict_zip column_header cells k = None"
proof -
  assume k: "k \<notin> set (take (length cells) column_header)"
  have "fst ` set (zip column_header cells) = set (take (length cells) column_header)"
    by (metis map_fst_zip_take set_map min.commute take_all_iff linear take_take)
  with k show ?thesis
    by (simp add: dict_zip_def map_of_eq_None_iff)
qed

lemma get_int_eq_Inr:
  "get_int data k = Inr n \<longleftrightarrow> (\<exists>cell. data k = Some cell \<and> py_int cell = Inr n)"
  by (auto simp: get_int_def bnd_eq_Inr getitem_eq_Inr)

lemma sublist_behind: "sublist xs ys \<Longrightarrow> sublist xs (ps @ ys)"
  by (metis append.assoc sublist_def)

lemma sublist_here2: "sublist (x @ [c]) (x @ [c] @ s)"
  using sublist_append_rightI [of "x @ [c]" s] by simp

lemma sublist_here4: "sublist (x @ y @ z @ [c]) (x @ y @ z @ [c] @ s)"
  using sublist_append_rightI [of "x @ y @ z @ [c]" s] by simp

lemma sublist_here6: "sublist (u @ [b] @ v @ [c] @ w @ [d]) (u @ [b] @ v @ [c] @ w @ [d] @ s)"
  using sublist_append_rightI [of "u @ [b] @ v @ [c] @ w @ [d]" s] by simp

lemma template_absent:
  "sublist (''    turbo_rate: None,'' @ [nl] @ ''    avx512_rate: None,'' @ [nl] @
     ''    avx512_turbo_rate: None,'' @ [nl]) (formstring_format a)"
  unfolding formstring_format_def
  by ((rule sublist_here6 | rule sublist_behind)+)

lemma template_fma:
  "sublist (''    avx512_fma_units: Some('' @ show_int (arg_fma a) @ ''),'' @ [nl])
     (formstring_format a)"
  unfolding formstring_format_def
  by ((rule sublist_here4 | rule sublist_behind)+)

lemma template_mem_support:
  "sublist (''    mem_support: MemoryType::DDR4_'' @ show_int (arg_max_mem_speed a) @ '','' @ [nl])
     (formstring_format a)"
  unfolding formstring_format_def
  by ((rule sublist_here4 | rule sublist_behind)+)

lemma template_end: "suffix ''},'' (formstring_format a)"
  unfolding formstring_format_def
  by ((rule suffix_order.refl | rule suffix_appendI)+)

section \<open>The claims\<close>

subsection \<open>C1: the round trip of one row\<close>

text \<open>
  Counterexample to C1 as stated. For the sheet with the header of the specification and
  the row \<open>Gold 6248;$3,043.00;1S;...\<close>, \<open>process\<close> prints exactly one block, and its
  price line is \<open>price: 10000000.00\<close>, not \<open>price: 3043.00\<close>: the comma of
  \<open>$3,043.00\<close> ends the digits behind the dollar sign before a point is seen, so the
  first match of \<open>pricere\<close> is the appended \<open>$10000000.00\<close>.
\<close>

theorem gold_6248_price_counterexample:
  "printed (snd (process gold_6248_files ''xeon_w.csv'' init)) = [gold_6248_block] \<and>
   sublist ''price: 10000000.00,'' gold_6248_block \<and>
   \<not> sublist ''price: 3043.00'' gold_6248_block"
  by code_simp

text \<open>
  C1, amended. For that sheet \<open>process\<close> ends without an exception, has seen the name
  \<open>Gold 6248\<close> and has printed exactly one block, with name \<open>"Gold 6248"\<close>,
  price \<open>10000000.00\<close>, clock_rate \<open>2.50\<close>, cores 20, threads 40, avx512_fma_units
  \<open>Some(1)\<close>, typ \<open>ProcessorType::XeonScalable_1S\<close>, scalability 1, mem_support
  \<open>MemoryType::DDR4_2933\<close> and mem_channels 6.
\<close>

theorem gold_6248_round_trip:
  "process gold_6248_files ''xeon_w.csv'' init =
     (None, \<lparr>observed = {''Gold 6248''}, printed = [gold_6248_block]\<rparr>)"
  by code_simp

subsection \<open>C3: the memory speed\<close>

text \<open>
  C3. For every row that is processed (its \<open>Sockets Supported\<close> cell is not empty and
  the body ends without an exception), the memory speed of the printed block is the
  correction applied to the maximum of all integers found in the text of the
  \<open>Maximum Memory Speed\<close> cell followed by the text of the \<open>Memory Types\<close> cell. The
  correction maps 2666 to 2667, leaves every other value unchanged, and is idempotent.
\<close>

theorem memory_speed_correction:
  assumes "body data st = (None, st')"
    and "data ''Sockets Supported'' = Some s" and "s \<noteq> []"
    and "data ''Maximum Memory Speed'' = Some speed" and "data ''Memory Types'' = Some types"
  shows "(\<exists>a. printed st' = printed st @ [formstring_format a] \<and>
            findall numberre (speed @ types) \<noteq> [] \<and>
            arg_max_mem_speed a =
              correction (Max (set (map int_of_digits (findall numberre (speed @ types)))))) \<and>
         correction 2666 = 2667 \<and>
         (\<forall>v. v \<noteq> 2666 \<longrightarrow> correction v = v) \<and>
         (\<forall>v. correction (correction v) = correction v)"
proof -
  from body_emitted [OF assms(1-3)] obtain price name a
    where a: "get_args data price = Inr a"
      and st': "st' = st\<lparr>observed := insert name (observed st),
        printed := printed st @ [formstring_format a]\<rparr>"
    by blast
  from a have "get_max_mem_speed data = Inr (arg_max_mem_speed a)"
    by (rule get_args_Inr)
  with assms(4,5) have "findall numberre (speed @ types) \<noteq> [] \<and>
      arg_max_mem_speed a =
        correction (Max (set (map int_of_digits (findall numberre (speed @ types)))))"
    by (rule get_max_mem_speed_eq)
  with st' have "\<exists>a. printed st' = printed st @ [formstring_format a] \<and>
      findall numberre (speed @ types) \<noteq> [] \<and>
      arg_max_mem_speed a =
        correction (Max (set (map int_of_digits (findall numberre (speed @ types)))))"
    by auto
  then show ?thesis by (simp add: correction_def)
qed

theorem memory_speed_correction_witness:
  "fst (body gold_6138 init) = None \<and>
   gold_6138 ''Maximum Memory Speed'' = Some ''2666'' \<and>
   gold_6138 ''Memory Types'' = Some ''DDR4'' \<and>
   (\<exists>a. printed (snd (body gold_6138 init)) = [formstring_format a] \<and>
        arg_max_mem_speed a = 2667) \<and>
   correction 2933 = 2933 \<and> correction 2400 = 2400 \<and> correction 2667 = 2667"
proof -
  have e: "fst (body gold_6138 init) = None" by code_simp
  then have b: "body gold_6138 init = (None, snd (body gold_6138 init))"
    by (metis prod.collapse)
  have s: "gold_6138 ''Sockets Supported'' = Some ''S4S''" by code_simp
  have n: "''S4S'' \<noteq> []" by simp
  have m: "gold_6138 ''Maximum Memory Speed'' = Some ''2666''" by code_simp
  have t: "gold_6138 ''Memory Types'' = Some ''DDR4''" by code_simp
  have f: "findall numberre (''2666'' @ ''DDR4'') = [''2666'', ''4'']" by code_simp
  have i: "map int_of_digits [''2666'', ''4''] = [2666, 4]" by code_simp
  have p: "printed init = []" by (simp add: init_def)
  note th = memory_speed_correction [OF b s n m t]
  from th have "\<exists>a. printed (snd (body gold_6138 init)) = [formstring_format a] \<and>
      arg_max_mem_speed a = 2667"
    unfolding f i p by (simp add: correction_def)
  moreover from th have "correction 2933 = 2933 \<and> correction 2400 = 2400 \<and>
      correction 2667 = 2667"
    by simp
  ultimately show ?thesis using e m t by blast
qed

subsection \<open>C4: the scalability\<close>

text \<open>
  Counterexample to C4 as stated. The row with the \<open>Scalability\<close> cell \<open>1S or 3S\<close> is not
  skipped and the text of the cell contains \<open>3\<close>, yet the body ends without an exception
  and prints one block, with scalability 1: only the first integer of the cell is looked
  at.
\<close>

theorem scalability_three_counterexample:
  "one_or_three ''Sockets Supported'' = Some ''1S'' \<and>
   one_or_three ''Scalability'' = Some ''1S or 3S'' \<and>
   sublist ''3'' ''1S or 3S'' \<and>
   fst (body one_or_three init) = None \<and>
   length (printed (snd (body one_or_three init))) = 1 \<and>
   sublist (''    scalability: 1,'' @ [nl]) (last (printed (snd (body one_or_three init))))"
  by code_simp

text \<open>
  C4, amended. For every row that is not skipped and has a \<open>Scalability\<close> cell: if the
  body ends without an exception, the scalability of the printed block is the first
  integer found in the cell, and it is one of 1, 2, 4, 8; and if the first integer found
  in the cell is not one of 1, 2, 4, 8 (as in \<open>3S\<close>), lines 60 and 61 fail (with the
  assertion, or with the \<open>ValueError\<close> of \<open>int\<close> beyond 4300 digits), and the body ends
  with an exception and prints nothing.
\<close>

theorem scalability_first_integer:
  assumes "data ''Sockets Supported'' = Some s" and "s \<noteq> []"
    and "data ''Scalability'' = Some cell"
  shows "(\<forall>st'. body data st = (None, st') \<longrightarrow>
            (\<exists>a m ms. printed st' = printed st @ [formstring_format a] \<and>
               findall numberre cell = m # ms \<and> arg_scale a = int_of_digits m \<and>
               arg_scale a \<in> {1, 2, 4, 8})) \<and>
         (\<forall>m ms. findall numberre cell = m # ms \<and> int_of_digits m \<notin> {1, 2, 4, 8} \<longrightarrow>
            get_scale data =
              Inl (if max_str_digits < length m then ValueError else AssertionError) \<and>
            fst (body data st) \<noteq> None \<and> printed (snd (body data st)) = printed st)"
proof (intro conjI impI allI)
  fix st'
  assume "body data st = (None, st')"
  from body_emitted [OF this assms(1,2)] obtain price name a
    where a: "get_args data price = Inr a"
      and st': "st' = st\<lparr>observed := insert name (observed st),
        printed := printed st @ [formstring_format a]\<rparr>"
    by blast
  from a have "get_scale data = Inr (arg_scale a)" by (rule get_args_Inr)
  from get_scale_eq_Inr [OF this assms(3)] st'
  show "\<exists>a m ms. printed st' = printed st @ [formstring_format a] \<and>
      findall numberre cell = m # ms \<and> arg_scale a = int_of_digits m \<and>
      arg_scale a \<in> {1, 2, 4, 8}"
    by auto
next
  fix m ms
  assume "findall numberre cell = m # ms \<and> int_of_digits m \<notin> {1, 2, 4, 8}"
  then have f: "findall numberre cell = m # ms" and i: "int_of_digits m \<notin> {1, 2, 4, 8}"
    by simp_all
  from assms(3) f i show g: "get_scale data =
      Inl (if max_str_digits < length m then ValueError else AssertionError)"
    by (rule get_scale_invalid)
  then have "\<And>price. \<exists>e. get_args data price = Inl e" by (rule get_args_scale_error)
  with assms(1,2) have "fst (body data st) \<noteq> None \<and> printed (snd (body data st)) = printed st"
    by (rule body_args_error)
  then show "fst (body data st) \<noteq> None" and "printed (snd (body data st)) = printed st"
    by simp_all
qed

theorem scalability_first_integer_witness:
  "three_sockets ''Sockets Supported'' = Some ''3S'' \<and>
   three_sockets ''Scalability'' = Some ''3S'' \<and>
   findall numberre ''3S'' = [''3''] \<and> int_of_digits ''3'' \<notin> {1, 2, 4, 8} \<and>
   get_scale three_sockets = Inl AssertionError \<and> fst (body three_sockets init) \<noteq> None \<and>
   printed (snd (body three_sockets init)) = [] \<and>
   gold_6138 ''Sockets Supported'' = Some ''S4S'' \<and> gold_6138 ''Scalability'' = Some ''S4S'' \<and>
   fst (body gold_6138 init) = None \<and>
   (\<exists>a. printed (snd (body gold_6138 init)) = [formstring_format a] \<and> arg_scale a = 4)"
proof -
  have s1: "three_sockets ''Sockets Supported'' = Some ''3S''" by code_simp
  have c1: "three_sockets ''Scalability'' = Some ''3S''" by code_simp
  have f1: "findall numberre ''3S'' = [''3'']" by code_simp
  have i1: "int_of_digits ''3'' \<notin> {1, 2, 4, 8}" by code_simp
  have n: "''3S'' \<noteq> []" "''S4S'' \<noteq> []" by simp_all
  have i: "printed init = []" by (simp add: init_def)
  from scalability_first_integer [OF s1 n(1) c1, of init, THEN conjunct2, rule_format,
      of "''3''" "[]"] f1 i1 i
  have 1: "get_scale three_sockets = Inl AssertionError \<and> fst (body three_sockets init) \<noteq> None \<and>
      printed (snd (body three_sockets init)) = []"
    by (simp add: max_str_digits_def)
  have s2: "gold_6138 ''Sockets Supported'' = Some ''S4S''" by code_simp
  have c2: "gold_6138 ''Scalability'' = Some ''S4S''" by code_simp
  have f2: "findall numberre ''S4S'' = [''4'']" by code_simp
  have i2: "int_of_digits ''4'' = 4" by code_simp
  have e: "fst (body gold_6138 init) = None" by code_simp
  then have b: "body gold_6138 init = (None, snd (body gold_6138 init))"
    by (metis prod.collapse)
  note scalability_first_integer [OF s2 n(2) c2, of init, THEN conjunct1, rule_format, OF b]
  then obtain a m ms
    where a: "printed (snd (body gold_6138 init)) = printed init @ [formstring_format a]"
      and m: "findall numberre ''S4S'' = m # ms" and v: "arg_scale a = int_of_digits m"
    by blast
  from m f2 have "m = ''4''" by simp
  with a v i i2 have 2: "\<exists>a. printed (snd (body gold_6138 init)) = [formstring_format a] \<and>
      arg_scale a = 4"
    by auto
  from 1 2 s1 c1 f1 i1 s2 c2 e show ?thesis by blast
qed

subsection \<open>C5: one block per row\<close>

text \<open>
  Counterexample to C5 as stated. Under the header
  \<open>Name;Sockets Supported;Recommended Customer Price\<close> the line \<open>Gold 6248;\<close> has an empty
  \<open>Sockets Supported\<close> cell and no price cell. Its body ends with the \<open>KeyError\<close> of line
  38, which comes before the check of line 40: the row is not passed over without error.
\<close>

theorem empty_sockets_counterexample:
  "short_row ''Sockets Supported'' = Some [] \<and>
   body short_row init = (Some (KeyError ''Recommended Customer Price''), init)"
  by code_simp

text \<open>
  C5, amended. A row with a non-empty \<open>Sockets Supported\<close> cell whose body ends without an
  exception prints exactly one block. A row whose \<open>Sockets Supported\<close> cell is the empty
  string and which has a \<open>Recommended Customer Price\<close> cell prints nothing and changes
  nothing, and the loop goes on with the next row.
\<close>

theorem one_block_per_row:
  "(body data st = (None, st') \<and> data ''Sockets Supported'' = Some s \<and> s \<noteq> [] \<longrightarrow>
      (\<exists>block. printed st' = printed st @ [block])) \<and>
   (data ''Sockets Supported'' = Some [] \<and> data ''Recommended Customer Price'' = Some cell \<longrightarrow>
      body data st = (None, st)) \<and>
   (dict_zip column_header cells ''Sockets Supported'' = Some [] \<and>
    dict_zip column_header cells ''Recommended Customer Price'' = Some cell \<longrightarrow>
      rows_loop column_header (cells # rest) st = rows_loop column_header rest st)"
proof (intro conjI impI)
  assume "body data st = (None, st') \<and> data ''Sockets Supported'' = Some s \<and> s \<noteq> []"
  then have "body data st = (None, st')" "data ''Sockets Supported'' = Some s" "s \<noteq> []"
    by simp_all
  from body_emitted [OF this] show "\<exists>block. printed st' = printed st @ [block]"
    by auto
next
  assume "data ''Sockets Supported'' = Some [] \<and>
    data ''Recommended Customer Price'' = Some cell"
  then show "body data st = (None, st)" by (simp add: body_skip)
next
  assume "dict_zip column_header cells ''Sockets Supported'' = Some [] \<and>
    dict_zip column_header cells ''Recommended Customer Price'' = Some cell"
  then have "body (dict_zip column_header cells) st = (None, st)" by (simp add: body_skip)
  then show "rows_loop column_header (cells # rest) st = rows_loop column_header rest st"
    by (rule rows_loop_skip)
qed

theorem one_block_per_row_witness:
  "fst (body silver_4114 init) = None \<and> silver_4114 ''Sockets Supported'' = Some ''2S'' \<and>
   (\<exists>block. printed (snd (body silver_4114 init)) = [block]) \<and>
   dict_zip columns (split_semi skipped_line) ''Sockets Supported'' = Some [] \<and>
   dict_zip columns (split_semi skipped_line) ''Recommended Customer Price'' = Some ''$3,043.00'' \<and>
   body (dict_zip columns (split_semi skipped_line)) init = (None, init) \<and>
   rows_loop columns [split_semi skipped_line, split_semi gold_6248_line] init =
     rows_loop columns [split_semi gold_6248_line] init"
proof -
  let ?d = "dict_zip columns (split_semi skipped_line)"
  have e: "fst (body silver_4114 init) = None" by code_simp
  then have b: "body silver_4114 init = (None, snd (body silver_4114 init))"
    by (metis prod.collapse)
  have s: "silver_4114 ''Sockets Supported'' = Some ''2S''" by code_simp
  have i: "printed init = []" by (simp add: init_def)
  from one_block_per_row [of silver_4114 init "snd (body silver_4114 init)" "''2S''",
      THEN conjunct1] b s i
  have 1: "\<exists>block. printed (snd (body silver_4114 init)) = [block]" by simp
  have k: "?d ''Sockets Supported'' = Some []" by code_simp
  have p: "?d ''Recommended Customer Price'' = Some ''$3,043.00''" by code_simp
  from one_block_per_row [of ?d init, THEN conjunct2, THEN conjunct1] k p
  have 2: "body ?d init = (None, init)" by blast
  from one_block_per_row [of _ _ _ _ _ columns "split_semi skipped_line",
      THEN conjunct2, THEN conjunct2] k p
  have 3: "rows_loop columns [split_semi skipped_line, split_semi gold_6248_line] init =
     rows_loop columns [split_semi gold_6248_line] init" by blast
  from e s 1 k p 2 3 show ?thesis by blast
qed

subsection \<open>C6: the price\<close>

text \<open>
  Counterexample to C6 as stated. The cell \<open>$5.00 then $1999.00\<close> contains the text
  \<open>$1999.00\<close>, and its price is 5.00, not 1999.00: the price is the first match of
  \<open>pricere\<close>, and \<open>$5.00\<close> comes first.
\<close>

theorem first_price_counterexample:
  "two_prices ''Recommended Customer Price'' = Some ''$5.00 then $1999.00'' \<and>
   sublist ''$1999.00'' ''$5.00 then $1999.00'' \<and>
   get_price two_prices = Inr (py_float ''5.00'') \<and>
   py_float ''5.00'' = Finite (5 * 2 ^ 50) (- 50) \<and>
   format_2f (py_float ''5.00'') = ''5.00'' \<and>
   py_float ''5.00'' \<noteq> py_float ''1999.00''"
  by code_simp

text \<open>
  C6, amended. Whatever the \<open>Recommended Customer Price\<close> cell holds, \<open>pricere\<close> matches
  in the cell followed by \<open>$10000000.00\<close>, so taking the first match never fails: the
  price is the float of the first match in the cell, or of \<open>10000000.00\<close> when the cell
  has none. An empty cell gives 10000000.00. A cell that contains \<open>$1999.00\<close> gives
  1999.00 if the pattern matches nowhere before it, that is, if \<open>$1999.00\<close> is the first
  price in the cell. Both floats are exact, and print as \<open>10000000.00\<close> and \<open>1999.00\<close>.
\<close>

theorem price_extraction_total:
  "findall pricere (cell @ suffix_price) \<noteq> [] \<and>
   (data ''Recommended Customer Price'' = Some cell \<longrightarrow>
      get_price data =
        Inr (py_float (case findall pricere cell of [] \<Rightarrow> ''10000000.00'' | m # _ \<Rightarrow> m))) \<and>
   (data ''Recommended Customer Price'' = Some [] \<longrightarrow>
      get_price data = Inr (py_float ''10000000.00'')) \<and>
   py_float ''10000000.00'' = Finite (10000000 * 2 ^ 29) (- 29) \<and>
   format_2f (py_float ''10000000.00'') = ''10000000.00'' \<and>
   (findall pricere pre = [] \<and>
    data ''Recommended Customer Price'' = Some (pre @ ''$1999.00'' @ post) \<longrightarrow>
      get_price data = Inr (py_float ''1999.00'')) \<and>
   py_float ''1999.00'' = Finite (1999 * 2 ^ 42) (- 42) \<and>
   format_2f (py_float ''1999.00'') = ''1999.00''"
proof -
  have 1: "findall pricere (cell @ suffix_price) \<noteq> []"
    by (simp add: findall_pricere_suffix)
  have s: "py_float ''10000000.00'' = Finite (10000000 * 2 ^ 29) (- 29)" by code_simp
  have f1: "format_2f (py_float ''10000000.00'') = ''10000000.00''" by code_simp
  have p: "py_float ''1999.00'' = Finite (1999 * 2 ^ 42) (- 42)" by code_simp
  have f2: "format_2f (py_float ''1999.00'') = ''1999.00''" by code_simp
  have 3: "get_price data = Inr (py_float ''10000000.00'')"
    if "data ''Recommended Customer Price'' = Some []"
    using get_price_eq [of data "[]"] that by simp
  have 4: "get_price data = Inr (py_float ''1999.00'')"
    if "findall pricere pre = []"
      and "data ''Recommended Customer Price'' = Some (pre @ ''$1999.00'' @ post)"
  proof -
    from findall_1999 [OF that(1), of post] obtain ms
      where "findall pricere (pre @ ''$1999.00'' @ post) = ''1999.00'' # ms" ..
    with get_price_eq [of data "pre @ ''$1999.00'' @ post"] that(2) show ?thesis by simp
  qed
  have 2: "get_price data =
      Inr (py_float (case findall pricere cell of [] \<Rightarrow> ''10000000.00'' | m # _ \<Rightarrow> m))"
    if "data ''Recommended Customer Price'' = Some cell"
    using that by (rule get_price_eq)
  from 1 2 3 4 s f1 p f2 show ?thesis by blast
qed

theorem price_extraction_total_witness:
  "findall pricere ('''' @ suffix_price) = [''10000000.00''] \<and>
   get_price [''Recommended Customer Price'' \<mapsto> ''''] = Inr (py_float ''10000000.00'') \<and>
   findall pricere ''from '' = [] \<and>
   get_price [''Recommended Customer Price'' \<mapsto> ''from '' @ ''$1999.00'' @ '' to $2099.00'']
     = Inr (py_float ''1999.00'')"
proof -
  let ?k = "''Recommended Customer Price''"
  have a: "[?k \<mapsto> ''''] ?k = Some []" by simp
  have b: "findall pricere ''from '' = []" by code_simp
  have c: "[?k \<mapsto> ''from '' @ ''$1999.00'' @ '' to $2099.00''] ?k =
      Some (''from '' @ ''$1999.00'' @ '' to $2099.00'')" by simp
  have d: "findall pricere ('''' @ suffix_price) = [''10000000.00'']" by code_simp
  from price_extraction_total [of "''''" "[?k \<mapsto> '''']" "''''" "''''"] a
  have 1: "get_price [?k \<mapsto> ''''] = Inr (py_float ''10000000.00'')" by blast
  from price_extraction_total [of "''''"
      "[?k \<mapsto> ''from '' @ ''$1999.00'' @ '' to $2099.00'']" "''from ''" "'' to $2099.00''"] b c
  have 2: "get_price [?k \<mapsto> ''from '' @ ''$1999.00'' @ '' to $2099.00''] =
      Inr (py_float ''1999.00'')"
    by blast
  from 1 2 b d show ?thesis by blast
qed

subsection \<open>C7: the family tag\<close>

text \<open>
  C7. For every row that is not skipped (its \<open>Sockets Supported\<close> cell \<open>s\<close> is not empty),
  the \<open>Product Collection\<close> cell is compared by equality with the four vendor strings.
  Any other text makes the assertion of line 58 fail, the body ends with an exception and
  prints nothing: there is no default tag. When the body ends without an exception, the
  cell is one of the four strings, and the typ of the printed block is its tag
  (\<open>XeonScalable\<close>, \<open>XeonScalableV2\<close>, \<open>XeonW\<close>, \<open>XeonD\<close>), an underscore and \<open>s\<close>.
\<close>

theorem family_classification:
  assumes "data ''Sockets Supported'' = Some s" and "s \<noteq> []"
    and "data ''Product Collection'' = Some pc"
  shows "(pc \<notin> {scalable, scalable2, xeon_w, xeon_d} \<longrightarrow>
            get_typ data = Inl AssertionError \<and> fst (body data st) \<noteq> None \<and>
            printed (snd (body data st)) = printed st) \<and>
         (\<forall>st'. body data st = (None, st') \<longrightarrow>
            (\<exists>a tag. printed st' = printed st @ [formstring_format a] \<and>
               (pc, tag) \<in> set [(scalable, ''XeonScalable''), (scalable2, ''XeonScalableV2''),
                 (xeon_w, ''XeonW''), (xeon_d, ''XeonD'')] \<and>
               arg_typ a = tag @ ''_'' @ s))"
proof (intro conjI impI allI)
  assume u: "pc \<notin> {scalable, scalable2, xeon_w, xeon_d}"
  with assms(3) show t: "get_typ data = Inl AssertionError" by (rule get_typ_unknown)
  then have "\<And>price. \<exists>e. get_args data price = Inl e"
    by (blast intro: get_args_typ_error)
  with assms(1,2) have "fst (body data st) \<noteq> None \<and> printed (snd (body data st)) = printed st"
    by (rule body_args_error)
  then show "fst (body data st) \<noteq> None" and "printed (snd (body data st)) = printed st"
    by simp_all
next
  fix st'
  assume "body data st = (None, st')"
  from body_emitted [OF this assms(1,2)] obtain price name a
    where a: "get_args data price = Inr a"
      and st': "st' = st\<lparr>observed := insert name (observed st),
        printed := printed st @ [formstring_format a]\<rparr>"
    by blast
  from a have "get_typ data = Inr (arg_typ a)" by (rule get_args_Inr)
  from get_typ_eq_Inr [OF this assms(3,1)] st'
  show "\<exists>a tag. printed st' = printed st @ [formstring_format a] \<and>
      (pc, tag) \<in> set [(scalable, ''XeonScalable''), (scalable2, ''XeonScalableV2''),
        (xeon_w, ''XeonW''), (xeon_d, ''XeonD'')] \<and>
      arg_typ a = tag @ ''_'' @ s"
    by auto
qed

theorem family_classification_witness:
  "xeon_e ''Sockets Supported'' = Some ''1S'' \<and>
   xeon_e ''Product Collection'' = Some (''Intel'' @ [reg] @ '' Xeon'' @ [reg] @ '' E Processor'') \<and>
   get_typ xeon_e = Inl AssertionError \<and> fst (body xeon_e init) \<noteq> None \<and>
   printed (snd (body xeon_e init)) = [] \<and>
   silver_4114 ''Sockets Supported'' = Some ''2S'' \<and>
   silver_4114 ''Product Collection'' = Some scalable \<and>
   fst (body silver_4114 init) = None \<and>
   (\<exists>a. printed (snd (body silver_4114 init)) = [formstring_format a] \<and>
        arg_typ a = ''XeonScalable_2S'')"
proof -
  let ?e = "''Intel'' @ [reg] @ '' Xeon'' @ [reg] @ '' E Processor''"
  have s1: "xeon_e ''Sockets Supported'' = Some ''1S''" by code_simp
  have p1: "xeon_e ''Product Collection'' = Some ?e" by code_simp
  have u: "?e \<notin> {scalable, scalable2, xeon_w, xeon_d}" by code_simp
  have n: "''1S'' \<noteq> []" "''2S'' \<noteq> []" by simp_all
  have i: "printed init = []" by (simp add: init_def)
  from family_classification [OF s1 n(1) p1, of init] u i
  have 1: "get_typ xeon_e = Inl AssertionError \<and> fst (body xeon_e init) \<noteq> None \<and>
      printed (snd (body xeon_e init)) = []"
    by simp
  have s2: "silver_4114 ''Sockets Supported'' = Some ''2S''" by code_simp
  have p2: "silver_4114 ''Product Collection'' = Some scalable" by code_simp
  have e: "fst (body silver_4114 init) = None" by code_simp
  then have b: "body silver_4114 init = (None, snd (body silver_4114 init))"
    by (metis prod.collapse)
  have d: "scalable \<noteq> scalable2" "scalable \<noteq> xeon_w" "scalable \<noteq> xeon_d" by code_simp+
  note family_classification [OF s2 n(2) p2, of init, THEN conjunct2, rule_format, OF b]
  then obtain a tag where a: "printed (snd (body silver_4114 init)) = printed init @ [formstring_format a]"
    and t: "(scalable, tag) \<in> set [(scalable, ''XeonScalable''), (scalable2, ''XeonScalableV2''),
      (xeon_w, ''XeonW''), (xeon_d, ''XeonD'')]"
    and y: "arg_typ a = tag @ ''_'' @ ''2S''"
    by blast
  from t d have "tag = ''XeonScalable''" by auto
  with a y i have 2: "\<exists>a. printed (snd (body silver_4114 init)) = [formstring_format a] \<and>
      arg_typ a = ''XeonScalable_2S''"
    by auto
  from 1 2 s1 p1 s2 p2 e show ?thesis by blast
qed

subsection \<open>C8: the fixed parts of a block\<close>

text \<open>
  C8. Every block that the body prints holds the three lines \<open>turbo_rate: None,\<close>,
  \<open>avx512_rate: None,\<close> and \<open>avx512_turbo_rate: None,\<close>; the line
  \<open>avx512_fma_units: Some(n),\<close> where \<open>n\<close> is \<open>int\<close> of the \<open># of AVX-512 FMA Units\<close>
  cell; the line \<open>mem_support: MemoryType::DDR4_v,\<close> where \<open>v\<close> is the memory speed of
  lines 64 to 68; and it ends with \<open>},\<close>.
\<close>

theorem block_fixed_fields:
  assumes "body data st = (None, st')"
    and "data ''Sockets Supported'' = Some s" and "s \<noteq> []"
  shows "\<exists>a fma. printed st' = printed st @ [formstring_format a] \<and>
      sublist (''    turbo_rate: None,'' @ [nl] @ ''    avx512_rate: None,'' @ [nl] @
        ''    avx512_turbo_rate: None,'' @ [nl]) (formstring_format a) \<and>
      data ''# of AVX-512 FMA Units'' = Some fma \<and> py_int fma = Inr (arg_fma a) \<and>
      sublist (''    avx512_fma_units: Some('' @ show_int (arg_fma a) @ ''),'' @ [nl])
        (formstring_format a) \<and>
      get_max_mem_speed data = Inr (arg_max_mem_speed a) \<and>
      sublist (''    mem_support: MemoryType::DDR4_'' @ show_int (arg_max_mem_speed a) @
        '','' @ [nl]) (formstring_format a) \<and>
      suffix ''},'' (formstring_format a)"
proof -
  from body_emitted [OF assms] obtain price name a
    where a: "get_args data price = Inr a"
      and st': "st' = st\<lparr>observed := insert name (observed st),
        printed := printed st @ [formstring_format a]\<rparr>"
    by blast
  from a have "get_int data ''# of AVX-512 FMA Units'' = Inr (arg_fma a)"
    by (rule get_args_Inr)
  then obtain fma where f: "data ''# of AVX-512 FMA Units'' = Some fma"
    and i: "py_int fma = Inr (arg_fma a)"
    unfolding get_int_eq_Inr by blast
  from a have m: "get_max_mem_speed data = Inr (arg_max_mem_speed a)"
    by (rule get_args_Inr)
  from st' have p: "printed st' = printed st @ [formstring_format a]" by simp
  from p f i m template_absent [of a] template_fma [of a] template_mem_support [of a]
    template_end [of a]
  show ?thesis by blast
qed

theorem block_fixed_fields_witness:
  "fst (body silver_4114 init) = None \<and> silver_4114 ''Sockets Supported'' = Some ''2S'' \<and>
   silver_4114 ''# of AVX-512 FMA Units'' = Some ''1'' \<and>
   (\<exists>a. printed (snd (body silver_4114 init)) = [formstring_format a] \<and>
      arg_fma a = 1 \<and> arg_max_mem_speed a = 2400 \<and>
      sublist (''    avx512_fma_units: Some(1),'' @ [nl]) (formstring_format a) \<and>
      sublist (''    mem_support: MemoryType::DDR4_2400,'' @ [nl]) (formstring_format a) \<and>
      suffix ''},'' (formstring_format a))"
proof -
  have e: "fst (body silver_4114 init) = None" by code_simp
  then have b: "body silver_4114 init = (None, snd (body silver_4114 init))"
    by (metis prod.collapse)
  have s: "silver_4114 ''Sockets Supported'' = Some ''2S''" by code_simp
  have n: "''2S'' \<noteq> []" by simp
  have f: "silver_4114 ''# of AVX-512 FMA Units'' = Some ''1''" by code_simp
  have i: "py_int ''1'' = Inr 1" by code_simp
  have m: "get_max_mem_speed silver_4114 = Inr 2400" by code_simp
  have s1: "show_int 1 = ''1''" by code_simp
  have s2: "show_int 2400 = ''2400''" by code_simp
  have p: "printed init = []" by (simp add: init_def)
  from block_fixed_fields [OF b s n] obtain a fma
    where 1: "printed (snd (body silver_4114 init)) = printed init @ [formstring_format a]"
      and 2: "silver_4114 ''# of AVX-512 FMA Units'' = Some fma"
      and 3: "py_int fma = Inr (arg_fma a)"
      and 4: "sublist (''    avx512_fma_units: Some('' @ show_int (arg_fma a) @ ''),'' @ [nl])
        (formstring_format a)"
      and 5: "get_max_mem_speed silver_4114 = Inr (arg_max_mem_speed a)"
      and 6: "sublist (''    mem_support: MemoryType::DDR4_'' @ show_int (arg_max_mem_speed a) @
        '','' @ [nl]) (formstring_format a)"
      and 7: "suffix ''},'' (formstring_format a)"
    by blast
  from 2 3 f i have fa: "arg_fma a = 1" by simp
  from 5 m have ma: "arg_max_mem_speed a = 2400" by simp
  from 4 have a4: "sublist (''    avx512_fma_units: Some(1),'' @ [nl]) (formstring_format a)"
    unfolding fa s1 by simp
  from 6 have a6: "sublist (''    mem_support: MemoryType::DDR4_2400,'' @ [nl]) (formstring_format a)"
    unfolding ma s2 by simp
  from 1 p fa ma a4 a6 7 e s f show ?thesis by auto
qed

subsection \<open>C10: the price comes before the skip\<close>

text \<open>
  C10. The price is read (line 38) before the \<open>Sockets Supported\<close> cell is looked at (line
  40). So a row without the key \<open>Recommended Customer Price\<close> ends the run with a
  \<open>KeyError\<close>, whatever its \<open>Sockets Supported\<close> cell holds, also the empty string; and a
  row with a price cell and without the key \<open>Sockets Supported\<close> ends it with a \<open>KeyError\<close>
  too. A line with fewer cells than it takes to reach one of the two columns misses the
  key, and the loop stops there without printing.
\<close>

theorem price_before_skip:
  "(data ''Recommended Customer Price'' = None \<longrightarrow>
      body data st = (Some (KeyError ''Recommended Customer Price''), st)) \<and>
   (data ''Recommended Customer Price'' = Some cell \<and> data ''Sockets Supported'' = None \<longrightarrow>
      body data st = (Some (KeyError ''Sockets Supported''), st)) \<and>
   (''Recommended Customer Price'' \<notin> set (take (length cells) column_header) \<longrightarrow>
      rows_loop column_header (cells # rest) st =
        (Some (KeyError ''Recommended Customer Price''), st)) \<and>
   (dict_zip column_header cells ''Recommended Customer Price'' = Some cell \<and>
    ''Sockets Supported'' \<notin> set (take (length cells) column_header) \<longrightarrow>
      rows_loop column_header (cells # rest) st = (Some (KeyError ''Sockets Supported''), st))"
proof (intro conjI impI)
  assume "data ''Recommended Customer Price'' = None"
  then show "body data st = (Some (KeyError ''Recommended Customer Price''), st)"
    by (rule body_price_missing)
next
  assume "data ''Recommended Customer Price'' = Some cell \<and> data ''Sockets Supported'' = None"
  then show "body data st = (Some (KeyError ''Sockets Supported''), st)"
    by (simp add: body_sockets_missing)
next
  assume "''Recommended Customer Price'' \<notin> set (take (length cells) column_header)"
  then have "dict_zip column_header cells ''Recommended Customer Price'' = None"
    by (rule dict_zip_None)
  then have "body (dict_zip column_header cells) st =
      (Some (KeyError ''Recommended Customer Price''), st)"
    by (rule body_price_missing)
  then show "rows_loop column_header (cells # rest) st =
      (Some (KeyError ''Recommended Customer Price''), st)"
    by (rule rows_loop_abort)
next
  assume a: "dict_zip column_header cells ''Recommended Customer Price'' = Some cell \<and>
    ''Sockets Supported'' \<notin> set (take (length cells) column_header)"
  then have "dict_zip column_header cells ''Sockets Supported'' = None"
    by (simp add: dict_zip_None)
  with a have "body (dict_zip column_header cells) st =
      (Some (KeyError ''Sockets Supported''), st)"
    by (simp add: body_sockets_missing)
  then show "rows_loop column_header (cells # rest) st =
      (Some (KeyError ''Sockets Supported''), st)"
    by (rule rows_loop_abort)
qed

theorem price_before_skip_witness:
  "short_row ''Sockets Supported'' = Some [] \<and>
   short_row ''Recommended Customer Price'' = None \<and>
   body short_row init = (Some (KeyError ''Recommended Customer Price''), init) \<and>
   ''Recommended Customer Price'' \<notin> set (take (length name_only) columns) \<and>
   rows_loop columns [name_only, split_semi gold_6248_line] init =
     (Some (KeyError ''Recommended Customer Price''), init) \<and>
   dict_zip columns price_only ''Recommended Customer Price'' = Some ''$3,043.00'' \<and>
   ''Sockets Supported'' \<notin> set (take (length price_only) columns) \<and>
   dict_zip columns price_only ''Sockets Supported'' = None \<and>
   body (dict_zip columns price_only) init = (Some (KeyError ''Sockets Supported''), init) \<and>
   rows_loop columns [price_only, split_semi gold_6248_line] init =
     (Some (KeyError ''Sockets Supported''), init)"
proof -
  let ?p = "''Recommended Customer Price''" and ?s = "''Sockets Supported''"
  have a: "short_row ?s = Some []" by code_simp
  have b: "short_row ?p = None" by code_simp
  have c: "?p \<notin> set (take (length name_only) columns)" by code_simp
  have d: "dict_zip columns price_only ?p = Some ''$3,043.00''" by code_simp
  have e: "?s \<notin> set (take (length price_only) columns)" by code_simp
  have f: "dict_zip columns price_only ?s = None" by code_simp
  from price_before_skip [of short_row init, THEN conjunct1] b
  have 1: "body short_row init = (Some (KeyError ?p), init)" by blast
  from price_before_skip [of _ init _ name_only columns "[split_semi gold_6248_line]",
      THEN conjunct2, THEN conjunct2, THEN conjunct1] c
  have 2: "rows_loop columns [name_only, split_semi gold_6248_line] init =
      (Some (KeyError ?p), init)" by blast
  from price_before_skip [of "dict_zip columns price_only" init "''$3,043.00''",
      THEN conjunct2, THEN conjunct1] d f
  have 3: "body (dict_zip columns price_only) init = (Some (KeyError ?s), init)" by blast
  from price_before_skip [of _ init "''$3,043.00''" price_only columns
      "[split_semi gold_6248_line]", THEN conjunct2, THEN conjunct2, THEN conjunct2] d e
  have 4: "rows_loop columns [price_only, split_semi gold_6248_line] init =
      (Some (KeyError ?s), init)" by blast
  from a b c d e f 1 2 3 4 show ?thesis by blast
qed

end
